theory Spec2Isabelle
  imports Complex_Main
begin

section \<open>Smart Expense Tracker: the state object of script.js\<close>

text \<open>
  The development embeds the state management of \<^verbatim>\<open>src/script.js\<close>: the
  \<^verbatim>\<open>state\<close> object with its methods, the storage glue around
  \<^verbatim>\<open>localStorage\<close> and \<^verbatim>\<open>JSON\<close>, the form handler that creates
  expenses, and the utility \<^verbatim>\<open>getCategoryStats\<close>.

  Conventions of the embedding:
  \<^item> an expense is the object literal built in \<^verbatim>\<open>handleAddExpense\<close>: four fields,
    \<^verbatim>\<open>id\<close>, \<^verbatim>\<open>category\<close> and \<^verbatim>\<open>timestamp\<close> strings, \<^verbatim>\<open>amount\<close> a number;
  \<^item> a JavaScript number is a double; an amount is the real value of a finite double,
    and the sum of two numbers is what the browser's addition gives, which rounds;
    \<^verbatim>\<open>NaN\<close> and the infinities are outside the model;
  \<^item> mutation of the \<^verbatim>\<open>state\<close> object, of \<^verbatim>\<open>localStorage\<close> and the lines
    written by \<^verbatim>\<open>console.error\<close> are fields of one record that every method takes
    and returns;
  \<^item> what the browser decides (whether a storage access throws, what \<^verbatim>\<open>+\<close> on
    numbers, \<^verbatim>\<open>JSON.stringify\<close>, \<^verbatim>\<open>JSON.parse\<close> and \<^verbatim>\<open>parseFloat\<close> compute)
    is a parameter, the record \<open>platform\<close>;
  \<^item> an exception is a value of type \<open>js_error\<close>, and each \<^verbatim>\<open>try/catch\<close> of the
    source is a case distinction on a sum.
\<close>

subsection \<open>Data\<close>

text \<open>The field \<^verbatim>\<open>id\<close> is written \<open>id'\<close>: \<open>id\<close> is the identity function of HOL.\<close>

record expense =
  id' :: string
  amount :: real
  category :: string
  timestamp :: string

datatype js_error = SyntaxError | QuotaExceededError | SecurityError

text \<open>
  What \<^verbatim>\<open>JSON.parse\<close> returns when it does not throw: an array of expense objects,
  or \<^verbatim>\<open>null\<close>, or any other value (a boolean, a number, a string, an object, an
  array with an element that is not an expense object).
\<close>

datatype parsed = Expense_array "expense list" | Null | Other_value

text \<open>
  The browser functions the script calls. \<open>number_add\<close> is \<^verbatim>\<open>+\<close> on two numbers, the
  addition of doubles; nothing is assumed of it. \<open>setItem_throws\<close> and
  \<open>getItem_throws\<close> say whether an access to the storage throws, given the storage
  contents, the key and (for a write) the value.
\<close>

record platform =
  number_add :: "real \<Rightarrow> real \<Rightarrow> real"
  JSON_stringify :: "expense list \<Rightarrow> string"
  JSON_parse :: "string \<Rightarrow> js_error + parsed"
  setItem_throws :: "(string \<rightharpoonup> string) \<Rightarrow> string \<Rightarrow> string \<Rightarrow> js_error option"
  getItem_throws :: "(string \<rightharpoonup> string) \<Rightarrow> string \<Rightarrow> js_error option"
  parseFloat :: "string \<Rightarrow> real"

text \<open>
  \<open>expenses\<close> and \<open>currentFilter\<close> are the two data fields of the \<^verbatim>\<open>state\<close> object
  (lines 10-11); \<open>localStorage\<close> is the browser's key-value store and \<open>console\<close> the
  calls of \<^verbatim>\<open>console.error\<close>, message and error, oldest first.
\<close>

record world =
  expenses :: "expense list"
  currentFilter :: string
  localStorage :: "string \<rightharpoonup> string"
  console :: "(string \<times> js_error) list"

subsection \<open>Storage\<close>

definition setItem ::
  "platform \<Rightarrow> (string \<rightharpoonup> string) \<Rightarrow> string \<Rightarrow> string \<Rightarrow> js_error + (string \<rightharpoonup> string)" where
  "setItem p store k v =
     (case setItem_throws p store k v of
        Some err \<Rightarrow> Inl err
      | None \<Rightarrow> Inr (store(k \<mapsto> v)))"

definition getItem ::
  "platform \<Rightarrow> (string \<rightharpoonup> string) \<Rightarrow> string \<Rightarrow> js_error + string option" where
  "getItem p store k =
     (case getItem_throws p store k of
        Some err \<Rightarrow> Inl err
      | None \<Rightarrow> Inr (store k))"

text \<open>
  \<^verbatim>\<open>saveToStorage\<close> (lines 68-74): the write sits in a \<^verbatim>\<open>try\<close>; the
  \<^verbatim>\<open>catch\<close> logs the error and returns normally.
\<close>

definition saveToStorage :: "platform \<Rightarrow> world \<Rightarrow> world" where
  "saveToStorage p w =
     (case setItem p (localStorage w) ''expenses'' (JSON_stringify p (expenses w)) of
        Inr store \<Rightarrow> w\<lparr>localStorage := store\<rparr>
      | Inl err \<Rightarrow> w\<lparr>console := console w @ [(''Error saving to localStorage:'', err)]\<rparr>)"

text \<open>
  \<^verbatim>\<open>loadFromStorage\<close> (lines 80-88) returns a value and may log.
  \<^verbatim>\<open>stored ? JSON.parse(stored) : []\<close> takes the second branch for
  \<^verbatim>\<open>null\<close> (no such key) and for the empty string, the two falsy results of
  \<^verbatim>\<open>getItem\<close>. Whatever \<^verbatim>\<open>JSON.parse\<close> returns is returned as it is: only
  an exception reaches the \<^verbatim>\<open>catch\<close>.
\<close>

definition loadFromStorage :: "platform \<Rightarrow> world \<Rightarrow> parsed \<times> world" where
  "loadFromStorage p w =
     (case getItem p (localStorage w) ''expenses'' of
        Inl err \<Rightarrow>
          (Expense_array [],
           w\<lparr>console := console w @ [(''Error loading from localStorage:'', err)]\<rparr>)
      | Inr None \<Rightarrow> (Expense_array [], w)
      | Inr (Some stored) \<Rightarrow>
          (if stored = [] then (Expense_array [], w)
           else (case JSON_parse p stored of
                   Inl err \<Rightarrow>
                     (Expense_array [],
                      w\<lparr>console := console w @ [(''Error loading from localStorage:'', err)]\<rparr>)
                 | Inr v \<Rightarrow> (v, w))))"

subsection \<open>The methods of the state object\<close>

text \<open>
  \<^verbatim>\<open>init\<close> (lines 16-18) assigns whatever \<^verbatim>\<open>loadFromStorage\<close> returns. With an
  array of expenses the state is a ledger again. With any other value
  \<^verbatim>\<open>state.expenses\<close> is no array of expenses, and the methods below, which are
  written for one, do not apply: \<open>No_ledger\<close> keeps that value beside the rest of the
  world.
\<close>

datatype started = Ledger world | No_ledger parsed world

definition init :: "platform \<Rightarrow> world \<Rightarrow> started" where
  "init p w =
     (case loadFromStorage p w of
        (Expense_array loaded, w') \<Rightarrow> Ledger (w'\<lparr>expenses := loaded\<rparr>)
      | (Null, w') \<Rightarrow> No_ledger Null w'
      | (Other_value, w') \<Rightarrow> No_ledger Other_value w')"

definition addExpense :: "platform \<Rightarrow> expense \<Rightarrow> world \<Rightarrow> world" where
  "addExpense p expense w = saveToStorage p (w\<lparr>expenses := expenses w @ [expense]\<rparr>)"

definition removeExpense :: "platform \<Rightarrow> string \<Rightarrow> world \<Rightarrow> world" where
  "removeExpense p i w =
     saveToStorage p (w\<lparr>expenses := filter (\<lambda>expense. id' expense \<noteq> i) (expenses w)\<rparr>)"

definition setFilter :: "string \<Rightarrow> world \<Rightarrow> world" where
  "setFilter c w = w\<lparr>currentFilter := c\<rparr>"

definition getFilteredExpenses :: "world \<Rightarrow> expense list" where
  "getFilteredExpenses w =
     (if currentFilter w = ''All'' then expenses w
      else filter (\<lambda>expense. category expense = currentFilter w) (expenses w))"

definition getTotal :: "platform \<Rightarrow> world \<Rightarrow> real" where
  "getTotal p w =
     foldl (\<lambda>sum expense. number_add p sum (amount expense)) 0 (getFilteredExpenses w)"

subsection \<open>Category statistics\<close>

text \<open>
  \<^verbatim>\<open>getCategoryStats\<close> (lines 378-388) collects its result in the object literal
  \<^verbatim>\<open>{}\<close>, whose prototype is \<^verbatim>\<open>Object.prototype\<close>. The read
  \<^verbatim>\<open>stats[expense.category]\<close> therefore finds an own property of \<^verbatim>\<open>stats\<close>
  or else a property inherited from \<^verbatim>\<open>Object.prototype\<close>; the latter are functions
  or, for \<^verbatim>\<open>__proto__\<close>, the prototype object itself, all truthy. These are the
  property names of \<^verbatim>\<open>Object.prototype\<close> in ECMAScript.
\<close>

definition Object_prototype_keys :: "string list" where
  "Object_prototype_keys =
     [''constructor'', ''hasOwnProperty'', ''isPrototypeOf'', ''propertyIsEnumerable'',
      ''toLocaleString'', ''toString'', ''valueOf'', ''__proto__'',
      ''__defineGetter__'', ''__defineSetter__'', ''__lookupGetter__'', ''__lookupSetter__'']"

text \<open>The fields are primed: \<open>total\<close> is a constant of HOL, and \<open>count\<close> of its library.\<close>

record category_stat =
  count' :: nat
  total' :: real

text \<open>
  The result is the own properties of \<^verbatim>\<open>stats\<close>. One round of the
  \<^verbatim>\<open>forEach\<close>: the guard \<^verbatim>\<open>!stats[c]\<close> holds when \<open>c\<close> is neither an own
  nor an inherited property; the two updates then go to the object that
  \<^verbatim>\<open>stats[c]\<close> reads, which is an own property of \<^verbatim>\<open>stats\<close> or else a member of
  \<^verbatim>\<open>Object.prototype\<close>, and in the second case \<^verbatim>\<open>stats\<close> keeps its own
  properties as they are.
\<close>

definition stats_step ::
  "platform \<Rightarrow> (string \<rightharpoonup> category_stat) \<Rightarrow> expense \<Rightarrow> (string \<rightharpoonup> category_stat)" where
  "stats_step p stats expense =
     (let c = category expense;
          stats1 = (if stats c = None \<and> c \<notin> set Object_prototype_keys
                    then stats(c \<mapsto> \<lparr>count' = 0, total' = 0\<rparr>) else stats)
      in case stats1 c of
           Some s \<Rightarrow>
             stats1(c \<mapsto> \<lparr>count' = count' s + 1,
                             total' = number_add p (total' s) (amount expense)\<rparr>)
         | None \<Rightarrow> stats1)"

definition getCategoryStats :: "platform \<Rightarrow> world \<Rightarrow> (string \<rightharpoonup> category_stat)" where
  "getCategoryStats p w = foldl (stats_step p) Map.empty (expenses w)"

subsection \<open>The form handler\<close>

text \<open>
  The keys of the tables \<^verbatim>\<open>categoryEmojis\<close> and \<^verbatim>\<open>categoryClasses\<close> of
  \<^verbatim>\<open>createExpenseHTML\<close> (lines 183-197): the categories the script knows.
\<close>

definition recognized_categories :: "string list" where
  "recognized_categories = [''Food'', ''Travel'', ''Shopping'', ''Bills'', ''Others'']"

text \<open>
  What one run of \<^verbatim>\<open>handleAddExpense\<close> reads from the clock and the random number
  generator, as the strings the template literal and \<^verbatim>\<open>toISOString\<close> produce:
  \<open>Date_now\<close> is \<^verbatim>\<open>Date.now()\<close> in decimal, \<open>Math_random_base36\<close> is
  \<^verbatim>\<open>Math.random().toString(36)\<close>.
\<close>

record env =
  Date_now :: string
  Math_random_base36 :: string
  Date_toISOString :: string

text \<open>\<^verbatim>\<open>generateUID\<close> (lines 358-360); \<^verbatim>\<open>substr(2, 9)\<close> skips two characters and keeps nine.\<close>

definition generateUID :: "env \<Rightarrow> string" where
  "generateUID e = Date_now e @ ''-'' @ take 9 (drop 2 (Math_random_base36 e))"

text \<open>
  The part of \<^verbatim>\<open>elements\<close> the handler touches: the values of the two inputs, and the
  two error elements with their text and whether they carry the class \<^verbatim>\<open>show\<close>.
\<close>

record error_element =
  textContent :: string
  shown :: bool

record elements =
  amountInput :: string
  categoryInput :: string
  amountError :: error_element
  categoryError :: error_element

definition showError :: "error_element \<Rightarrow> string \<Rightarrow> error_element" where
  "showError element message = element\<lparr>textContent := message, shown := True\<rparr>"

text \<open>\<^verbatim>\<open>validateForm\<close> (lines 115-136) returns \<^verbatim>\<open>isValid\<close> and the elements as it leaves them.\<close>

definition validateForm :: "platform \<Rightarrow> elements \<Rightarrow> bool \<times> elements" where
  "validateForm p els =
     (let els1 = els\<lparr>amountError := (amountError els)\<lparr>shown := False\<rparr>,
                     categoryError := (categoryError els)\<lparr>shown := False\<rparr>\<rparr>;
          amount = parseFloat p (amountInput els1);
          (isValid1, els2) =
            (if amountInput els1 = [] \<or> amount \<le> 0
             then (False, els1\<lparr>amountError :=
                      showError (amountError els1) ''Please enter a positive amount''\<rparr>)
             else (True, els1));
          (isValid2, els3) =
            (if categoryInput els2 = []
             then (False, els2\<lparr>categoryError :=
                      showError (categoryError els2) ''Please select a category''\<rparr>)
             else (isValid1, els2))
      in (isValid2, els3))"

text \<open>
  \<^verbatim>\<open>handleAddExpense\<close> (lines 279-307). Rendering and the success animation do not
  touch the state and are left out; \<^verbatim>\<open>form.reset()\<close> followed by the assignment
  empties both inputs.
\<close>

definition handleAddExpense :: "platform \<Rightarrow> env \<Rightarrow> elements \<times> world \<Rightarrow> elements \<times> world" where
  "handleAddExpense p e ew =
     (case ew of (els, w) \<Rightarrow>
        (case validateForm p els of
           (False, els') \<Rightarrow> (els', w)
         | (True, els') \<Rightarrow>
             (let expense = \<lparr>id' = generateUID e,
                             amount = parseFloat p (amountInput els'),
                             category = categoryInput els',
                             timestamp = Date_toISOString e\<rparr>;
                  w' = addExpense p expense w
              in (els'\<lparr>amountInput := [], categoryInput := []\<rparr>, w'))))"

subsection \<open>Sums\<close>

text \<open>
  The sum of a list of numbers as the script accumulates it, from 0 and from the left with
  the browser's addition; and the condition that none of these additions rounds, each
  giving the exact sum of its operands.
\<close>

definition sum_left_to_right :: "platform \<Rightarrow> real list \<Rightarrow> real" where
  "sum_left_to_right p xs = foldl (number_add p) 0 xs"

fun no_rounding :: "platform \<Rightarrow> real \<Rightarrow> real list \<Rightarrow> bool" where
  "no_rounding p a [] = True"
| "no_rounding p a (x # xs) = (number_add p a x = a + x \<and> no_rounding p (a + x) xs)"

subsection \<open>Sequences of operations\<close>






subsection \<open>Concrete inputs\<close>

text \<open>
  The state object as the script creates it (lines 10-11), in a browser whose storage is
  empty and whose console is clear.
\<close>

definition initial_world :: world where
  "initial_world = \<lparr>expenses = [], currentFilter = ''All'', localStorage = Map.empty, console = []\<rparr>"

text \<open>
  One submission of the form: the clock reads 1700000000000 ms and the random draw prints as
  \<^verbatim>\<open>0.4fzyo82mvyr\<close> in base 36.
\<close>

definition submit_env :: env where
  "submit_env = \<lparr>Date_now = ''1700000000000'', Math_random_base36 = ''0.4fzyo82mvyr'',
                  Date_toISOString = ''2023-11-14T22:13:20.000Z''\<rparr>"

text \<open>
  The two expenses of the specification's filter scenario; \<open>snack\<close>, created in the same
  millisecond as \<open>lunch\<close> with the same random draw; and \<open>refund\<close>, an object that the form
  would not create, with the id of \<open>lunch\<close>; and \<open>memo\<close>, whose category is the name of a
  method of every object; and \<open>jackpot\<close> and \<open>stamp\<close>, of amounts \<open>10 ^ 16\<close> and 1.
\<close>

definition jackpot :: expense where
  "jackpot = \<lparr>id' = ''1700000180000-q1w2e3r4t'', amount = 10000000000000000,
              category = ''Others'', timestamp = ''2023-11-14T22:16:20.000Z''\<rparr>"

definition stamp :: expense where
  "stamp = \<lparr>id' = ''1700000240000-z9y8x7w6v'', amount = 1,
            category = ''Others'', timestamp = ''2023-11-14T22:17:20.000Z''\<rparr>"

definition lunch :: expense where
  "lunch = \<lparr>id' = ''1700000000000-4fzyo82mv'', amount = 50, category = ''Food'',
            timestamp = ''2023-11-14T22:13:20.000Z''\<rparr>"

definition taxi :: expense where
  "taxi = \<lparr>id' = ''1700000060000-k3x9q0d1z'', amount = 30, category = ''Travel'',
           timestamp = ''2023-11-14T22:14:20.000Z''\<rparr>"

definition snack :: expense where
  "snack = \<lparr>id' = ''1700000000000-4fzyo82mv'', amount = 12, category = ''Food'',
            timestamp = ''2023-11-14T22:13:20.000Z''\<rparr>"

definition refund :: expense where
  "refund = \<lparr>id' = ''1700000000000-4fzyo82mv'', amount = - 5, category = ''Gifts'',
             timestamp = ''2023-11-15T08:00:00.000Z''\<rparr>"

definition memo :: expense where
  "memo = \<lparr>id' = ''1700000120000-b7m2c5w8t'', amount = 5, category = ''toString'',
           timestamp = ''2023-11-14T22:15:20.000Z''\<rparr>"

text \<open>A form filled in with an amount and a category, no error showing.\<close>

definition filled_form :: "string \<Rightarrow> string \<Rightarrow> elements" where
  "filled_form a c =
     \<lparr>amountInput = a, categoryInput = c,
      amountError = \<lparr>textContent = [], shown = False\<rparr>,
      categoryError = \<lparr>textContent = [], shown = False\<rparr>\<rparr>"

text \<open>
  A browser for the examples: every storage access succeeds, and the JSON functions and
  \<^verbatim>\<open>parseFloat\<close> are tabulated on the texts the examples use. The texts
  \<^verbatim>\<open>null\<close>, \<^verbatim>\<open>{}\<close> and \<^verbatim>\<open>[null]\<close> are JSON, though not arrays of expense
  objects.

  Its addition is the addition of doubles on integers whose sum is below \<open>2 ^ 54\<close> in
  magnitude, which the amounts of the examples are. Below \<open>2 ^ 53\<close> every integer is a
  double and the sum is exact. From \<open>2 ^ 53\<close> to \<open>2 ^ 54\<close> the doubles are the even
  integers: an even sum is exact, and an odd sum \<open>n\<close> lies halfway between the doubles
  \<open>n - 1\<close> and \<open>n + 1\<close> and is rounded to the one whose half is even (round to nearest,
  ties to the even significand). So \<open>10 ^ 16 + 1\<close> gives \<open>10 ^ 16\<close>.
\<close>

definition json_table :: "(string \<times> expense list) list" where
  \<open>json_table =
     [(''[]'', []),
      (''[{"id":"1700000000000-4fzyo82mv","amount":50,"category":"Food","timestamp":"2023-11-14T22:13:20.000Z"}]'',
       [lunch]),
      (''[{"id":"1700000000000-4fzyo82mv","amount":50,"category":"Food","timestamp":"2023-11-14T22:13:20.000Z"},{"id":"1700000000000-4fzyo82mv","amount":-5,"category":"Gifts","timestamp":"2023-11-15T08:00:00.000Z"}]'',
       [lunch, refund])]\<close>

definition browser :: platform where
  "browser =
     \<lparr>number_add = (\<lambda>x y. if \<bar>x + y\<bar> < 2 ^ 53 \<or> even \<lfloor>x + y\<rfloor> then x + y
                           else if even (\<lfloor>x + y\<rfloor> div 2) then x + y - 1 else x + y + 1),
      JSON_stringify = (\<lambda>es. case map_of (map (\<lambda>(t, v). (v, t)) json_table) es of
                                  Some t \<Rightarrow> t | None \<Rightarrow> ''[null]''),
      JSON_parse = (\<lambda>t. case map_of json_table t of
                              Some v \<Rightarrow> Inr (Expense_array v)
                            | None \<Rightarrow>
                                (if t = ''null'' then Inr Null
                                 else if t = ''{}'' \<or> t = ''[null]'' then Inr Other_value
                                 else Inl SyntaxError)),
      setItem_throws = (\<lambda>store k v. None),
      getItem_throws = (\<lambda>store k. None),
      parseFloat = (\<lambda>t. case map_of [(''50'', 50), (''30'', 30), (''12'', 12), (''-5'', - 5)] t of
                              Some r \<Rightarrow> r | None \<Rightarrow> 0)\<rparr>"

text \<open>The same browser with a storage that rejects every write.\<close>

definition browser_storage_full :: platform where
  "browser_storage_full = browser\<lparr>setItem_throws := (\<lambda>store k v. Some QuotaExceededError)\<rparr>"

section \<open>Properties\<close>

subsection \<open>What saving leaves alone\<close>

lemma expenses_saveToStorage: "expenses (saveToStorage p w) = expenses w"
  by (simp add: saveToStorage_def split: sum.splits)

lemma currentFilter_saveToStorage: "currentFilter (saveToStorage p w) = currentFilter w"
  by (simp add: saveToStorage_def split: sum.splits)

lemma localStorage_saveToStorage:
  "localStorage (saveToStorage p w) =
     (case setItem_throws p (localStorage w) ''expenses'' (JSON_stringify p (expenses w)) of
        None \<Rightarrow> (localStorage w)(''expenses'' \<mapsto> JSON_stringify p (expenses w))
      | Some err \<Rightarrow> localStorage w)"
  by (simp add: saveToStorage_def setItem_def split: option.splits)

lemma expenses_addExpense: "expenses (addExpense p e w) = expenses w @ [e]"
  by (simp add: addExpense_def expenses_saveToStorage)

lemma expenses_removeExpense:
  "expenses (removeExpense p i w) = filter (\<lambda>e. id' e \<noteq> i) (expenses w)"
  by (simp add: removeExpense_def expenses_saveToStorage)

subsection \<open>Replaying operations\<close>






text \<open>
  The two expenses that \<^verbatim>\<open>handleAddExpense\<close> creates when the form is submitted twice
  while the clock and the random number generator give the same values.
\<close>

lemma handleAddExpense_twice:
  "expenses (snd (handleAddExpense browser submit_env (filled_form ''12'' ''Food'',
      snd (handleAddExpense browser submit_env (filled_form ''50'' ''Food'', initial_world)))))
   = [lunch, snack]"
  by (simp add: handleAddExpense_def validateForm_def filled_form_def browser_def
      expenses_addExpense generateUID_def submit_env_def initial_world_def lunch_def snack_def)


subsection \<open>Validation\<close>

lemma fst_validateForm:
  "fst (validateForm p els) \<longleftrightarrow>
     amountInput els \<noteq> [] \<and> 0 < parseFloat p (amountInput els) \<and> categoryInput els \<noteq> []"
  by (auto simp add: validateForm_def Let_def split: prod.splits if_splits)

text \<open>
  C2 (as amended). \<^verbatim>\<open>state.addExpense\<close> validates nothing and never fails: whatever
  the amount and the category, the expense is appended to the entries. The check is the
  caller's: when the amount field is empty or parses to a number that is not positive, or
  the category field is empty, \<^verbatim>\<open>validateForm\<close> returns false and shows an error
  element, and \<^verbatim>\<open>handleAddExpense\<close> returns without touching the state.
\<close>

theorem addExpense_unvalidated:
  "expenses (addExpense p expense w) = expenses w @ [expense] \<and>
   (amountInput els = [] \<or> parseFloat p (amountInput els) \<le> 0 \<or> categoryInput els = [] \<longrightarrow>
      \<not> fst (validateForm p els) \<and>
      snd (handleAddExpense p e (els, w)) = w \<and>
      fst (handleAddExpense p e (els, w)) = snd (validateForm p els) \<and>
      (shown (amountError (snd (validateForm p els))) \<or>
       shown (categoryError (snd (validateForm p els)))))"
proof (intro conjI impI)
  show "expenses (addExpense p expense w) = expenses w @ [expense]"
    by (rule expenses_addExpense)
next
  assume bad: "amountInput els = [] \<or> parseFloat p (amountInput els) \<le> 0 \<or> categoryInput els = []"
  then show invalid: "\<not> fst (validateForm p els)"
    by (auto simp add: fst_validateForm)
  then show "snd (handleAddExpense p e (els, w)) = w"
    by (cases "validateForm p els") (auto simp add: handleAddExpense_def)
  from invalid show "fst (handleAddExpense p e (els, w)) = snd (validateForm p els)"
    by (cases "validateForm p els") (auto simp add: handleAddExpense_def)
  from bad show "shown (amountError (snd (validateForm p els))) \<or>
       shown (categoryError (snd (validateForm p els)))"
    by (auto simp add: validateForm_def Let_def showError_def split: prod.splits if_splits)
qed

text \<open>The form holding the amount -5 is turned away with the amount error showing.\<close>

theorem addExpense_unvalidated_witness:
  "expenses (addExpense browser refund initial_world) = [refund] \<and>
   parseFloat browser (amountInput (filled_form ''-5'' ''Food'')) \<le> 0 \<and>
   snd (handleAddExpense browser submit_env (filled_form ''-5'' ''Food'', initial_world)) = initial_world \<and>
   shown (amountError (fst (handleAddExpense browser submit_env (filled_form ''-5'' ''Food'', initial_world))))"
  using addExpense_unvalidated
      [where p = browser and expense = refund and w = initial_world
         and els = "filled_form ''-5'' ''Food''" and e = submit_env]
  by (simp add: initial_world_def browser_def filled_form_def validateForm_def showError_def)

text \<open>
  Called directly, \<^verbatim>\<open>state.addExpense\<close> takes an expense with a negative amount and a
  category outside the recognized ones, and the entries change.
\<close>

theorem addExpense_accepts_invalid:
  "amount refund \<le> 0 \<and> category refund \<notin> set recognized_categories \<and>
   expenses (addExpense browser refund initial_world) = [refund] \<and>
   expenses (addExpense browser refund initial_world) \<noteq> expenses initial_world"
  by (simp add: expenses_addExpense initial_world_def refund_def recognized_categories_def)

subsection \<open>Totals\<close>

lemma foldl_number_add_map:
  "foldl (\<lambda>sum expense. number_add p sum (amount expense)) a es =
     foldl (number_add p) a (map amount es)"
  by (induction es arbitrary: a) simp_all

lemma foldl_no_rounding:
  "no_rounding p a xs \<Longrightarrow> foldl (number_add p) a xs = a + sum_list xs"
  by (induction xs arbitrary: a) (simp_all add: add.assoc)

text \<open>
  C3 (as amended). Under the filter \<^verbatim>\<open>All\<close>, \<open>getTotal\<close> is the sum of the amounts
  of all entries as the doubles' addition accumulates it from 0 and from the left; under
  any other filter \<open>C\<close> it is that sum over exactly the entries whose category is \<open>C\<close>;
  in both cases it is the exact sum of those amounts whenever none of the additions
  rounds; and it is 0 when there are no entries.
\<close>

theorem getTotal_sums_visible:
  "(currentFilter w = ''All'' \<longrightarrow>
      getTotal p w = sum_left_to_right p (map amount (expenses w)) \<and>
      (no_rounding p 0 (map amount (expenses w)) \<longrightarrow>
         getTotal p w = sum_list (map amount (expenses w)))) \<and>
   (currentFilter w \<noteq> ''All'' \<longrightarrow>
      getTotal p w =
        sum_left_to_right p
          (map amount (filter (\<lambda>e. category e = currentFilter w) (expenses w))) \<and>
      (no_rounding p 0 (map amount (filter (\<lambda>e. category e = currentFilter w) (expenses w))) \<longrightarrow>
         getTotal p w =
           sum_list (map amount (filter (\<lambda>e. category e = currentFilter w) (expenses w))))) \<and>
   (expenses w = [] \<longrightarrow> getTotal p w = 0)"
proof -
  have total: "getTotal p w = sum_left_to_right p (map amount (getFilteredExpenses w))"
    by (simp add: getTotal_def sum_left_to_right_def foldl_number_add_map)
  have exact: "sum_left_to_right p xs = sum_list xs" if "no_rounding p 0 xs" for xs
    using foldl_no_rounding [OF that] by (simp add: sum_left_to_right_def)
  show ?thesis
  proof (intro conjI impI)
    assume "currentFilter w = ''All''"
    then have all: "getFilteredExpenses w = expenses w"
      by (simp add: getFilteredExpenses_def)
    with total show "getTotal p w = sum_left_to_right p (map amount (expenses w))"
      by simp
    assume "no_rounding p 0 (map amount (expenses w))"
    with total all show "getTotal p w = sum_list (map amount (expenses w))"
      by (simp add: exact)
  next
    let ?visible = "filter (\<lambda>e. category e = currentFilter w) (expenses w)"
    assume "currentFilter w \<noteq> ''All''"
    then have some: "getFilteredExpenses w = ?visible"
      by (simp add: getFilteredExpenses_def)
    with total show "getTotal p w = sum_left_to_right p (map amount ?visible)"
      by simp
    assume "no_rounding p 0 (map amount ?visible)"
    with total some show "getTotal p w = sum_list (map amount ?visible)"
      by (simp add: exact)
  next
    assume "expenses w = []"
    then show "getTotal p w = 0"
      by (simp add: getTotal_def getFilteredExpenses_def)
  qed
qed

text \<open>The specification's scenario: 80 under \<^verbatim>\<open>All\<close>, 50 under \<^verbatim>\<open>Food\<close>, 0 when empty.\<close>

theorem getTotal_sums_visible_witness:
  "no_rounding browser 0 (map amount (expenses (initial_world\<lparr>expenses := [lunch, taxi]\<rparr>))) \<and>
   getTotal browser (initial_world\<lparr>expenses := [lunch, taxi]\<rparr>) = 80 \<and>
   getTotal browser (initial_world\<lparr>expenses := [lunch, taxi], currentFilter := ''Food''\<rparr>) = 50 \<and>
   getTotal browser initial_world = 0"
  using getTotal_sums_visible
      [where p = browser and w = "initial_world\<lparr>expenses := [lunch, taxi]\<rparr>"]
    getTotal_sums_visible
      [where p = browser and w = "initial_world\<lparr>expenses := [lunch, taxi], currentFilter := ''Food''\<rparr>"]
    getTotal_sums_visible [where p = browser and w = initial_world]
  by (simp add: initial_world_def lunch_def taxi_def browser_def)

text \<open>
  The total is not the sum of the amounts in general: with the entries \<open>jackpot\<close> and
  \<open>stamp\<close> the second addition rounds, and \<open>getTotal\<close> returns \<open>10 ^ 16\<close> while the
  amounts add up to \<open>10 ^ 16 + 1\<close>.
\<close>

theorem getTotal_rounds:
  "0 < amount jackpot \<and> 0 < amount stamp \<and>
   currentFilter (initial_world\<lparr>expenses := [jackpot, stamp]\<rparr>) = ''All'' \<and>
   getTotal browser (initial_world\<lparr>expenses := [jackpot, stamp]\<rparr>) = 10000000000000000 \<and>
   sum_list (map amount (expenses (initial_world\<lparr>expenses := [jackpot, stamp]\<rparr>)))
     = 10000000000000001 \<and>
   getTotal browser (initial_world\<lparr>expenses := [jackpot, stamp]\<rparr>)
     \<noteq> sum_list (map amount (expenses (initial_world\<lparr>expenses := [jackpot, stamp]\<rparr>)))"
  by (simp add: getTotal_def getFilteredExpenses_def initial_world_def jackpot_def stamp_def
      browser_def)

subsection \<open>Category statistics\<close>

lemma stats_step_other:
  "category e \<noteq> c \<Longrightarrow> stats_step p m e c = m c"
  by (simp add: stats_step_def Let_def split: option.splits)

lemma stats_step_same:
  "category e = c \<Longrightarrow> c \<notin> set Object_prototype_keys \<Longrightarrow>
   stats_step p m e c =
     Some (case m c of
             None \<Rightarrow> \<lparr>count' = 1, total' = number_add p 0 (amount e)\<rparr>
           | Some s \<Rightarrow> \<lparr>count' = count' s + 1, total' = number_add p (total' s) (amount e)\<rparr>)"
  by (simp add: stats_step_def Let_def split: option.splits)

lemma foldl_stats_step:
  assumes "c \<notin> set Object_prototype_keys"
  shows "foldl (stats_step p) m es c =
     (case m c of
        None \<Rightarrow>
          (if c \<in> category ` set es
           then Some \<lparr>count' = length (filter (\<lambda>e. category e = c) es),
                      total' = foldl (number_add p) 0
                                 (map amount (filter (\<lambda>e. category e = c) es))\<rparr>
           else None)
      | Some s \<Rightarrow>
          Some \<lparr>count' = count' s + length (filter (\<lambda>e. category e = c) es),
                total' = foldl (number_add p) (total' s)
                           (map amount (filter (\<lambda>e. category e = c) es))\<rparr>)"
proof (induction es arbitrary: m)
  case Nil
  show ?case by (simp split: option.splits)
next
  case (Cons e es)
  show ?case
  proof (cases "category e = c")
    case True
    then show ?thesis
      using assms by (simp add: Cons.IH stats_step_same split: option.splits)
  next
    case False
    then show ?thesis
      by (simp add: Cons.IH stats_step_other split: option.splits)
  qed
qed

text \<open>
  Where the code does what is expected of it: for a category that is not a property name
  of \<^verbatim>\<open>Object.prototype\<close>, the result counts all entries of that category and adds
  their amounts up from the left, whatever the active filter; and the specification's
  scenario comes out as stated.
\<close>

lemma getCategoryStats_own_category:
  "c \<notin> set Object_prototype_keys \<Longrightarrow>
   getCategoryStats p w c =
     (if c \<in> category ` set (expenses w)
      then Some \<lparr>count' = length (filter (\<lambda>e. category e = c) (expenses w)),
                 total' = sum_left_to_right p
                            (map amount (filter (\<lambda>e. category e = c) (expenses w)))\<rparr>
      else None)"
  by (simp add: getCategoryStats_def foldl_stats_step sum_left_to_right_def)

lemma getCategoryStats_ignores_filter:
  "getCategoryStats p (setFilter v w) = getCategoryStats p w"
  by (simp add: getCategoryStats_def setFilter_def)

lemma getCategoryStats_scenario:
  "getCategoryStats browser (w\<lparr>expenses :=
      [\<lparr>id' = a, amount = 10, category = ''Food'', timestamp = t1\<rparr>,
       \<lparr>id' = b, amount = 20, category = ''Food'', timestamp = t2\<rparr>,
       \<lparr>id' = c, amount = 5, category = ''Travel'', timestamp = t3\<rparr>]\<rparr>)
   = [''Food'' \<mapsto> \<lparr>count' = 2, total' = 30\<rparr>, ''Travel'' \<mapsto> \<lparr>count' = 1, total' = 5\<rparr>]"
  by (simp add: getCategoryStats_def stats_step_def Let_def Object_prototype_keys_def
      numeral_2_eq_2 browser_def)

text \<open>
  C4. The statistics are meant to hold, for each category among the entries, the number of
  its entries and the sum of their amounts. The code misses the categories that name a
  property of \<^verbatim>\<open>Object.prototype\<close>: for the single entry \<open>memo\<close> of category
  \<^verbatim>\<open>toString\<close> the guard \<^verbatim>\<open>!stats[expense.category]\<close> reads the inherited method,
  no own property is created, and the result is the empty object.
\<close>

theorem getCategoryStats_inherited_key:
  "category memo \<in> category ` set (expenses (initial_world\<lparr>expenses := [memo]\<rparr>)) \<and>
   getCategoryStats browser (initial_world\<lparr>expenses := [memo]\<rparr>) (category memo) = None \<and>
   getCategoryStats browser (initial_world\<lparr>expenses := [memo]\<rparr>) = Map.empty"
  by (simp add: getCategoryStats_def stats_step_def Let_def Object_prototype_keys_def
      initial_world_def memo_def)

subsection \<open>Removal\<close>

text \<open>
  C5. Removing the same id twice in a row leaves the entries, the filter and the stored
  text as removing it once does; and removing an id that no entry has leaves the entries
  as they are. \<^verbatim>\<open>removeExpense\<close> has no failing branch.
\<close>

theorem removeExpense_idempotent:
  "expenses (removeExpense p i (removeExpense p i w)) = expenses (removeExpense p i w) \<and>
   currentFilter (removeExpense p i (removeExpense p i w)) = currentFilter (removeExpense p i w) \<and>
   localStorage (removeExpense p i (removeExpense p i w)) = localStorage (removeExpense p i w) \<and>
   (i \<notin> id' ` set (expenses w) \<longrightarrow> expenses (removeExpense p i w) = expenses w)"
proof (intro conjI impI)
  show "expenses (removeExpense p i (removeExpense p i w)) = expenses (removeExpense p i w)"
    by (simp add: expenses_removeExpense)
  show "currentFilter (removeExpense p i (removeExpense p i w)) = currentFilter (removeExpense p i w)"
    by (simp add: removeExpense_def currentFilter_saveToStorage)
  show "localStorage (removeExpense p i (removeExpense p i w)) = localStorage (removeExpense p i w)"
    by (simp add: removeExpense_def localStorage_saveToStorage expenses_saveToStorage
        split: option.splits)
next
  assume "i \<notin> id' ` set (expenses w)"
  then have "\<forall>e \<in> set (expenses w). id' e \<noteq> i" by auto
  then show "expenses (removeExpense p i w) = expenses w"
    by (simp add: expenses_removeExpense)
qed

text \<open>Removing \<open>lunch\<close> once or twice leaves \<open>taxi\<close>; removing an id nobody has removes nothing.\<close>

theorem removeExpense_idempotent_witness:
  "expenses (removeExpense browser (id' lunch) (removeExpense browser (id' lunch) (initial_world\<lparr>expenses := [lunch, taxi]\<rparr>))) = [taxi] \<and>
   expenses (removeExpense browser (id' lunch) (initial_world\<lparr>expenses := [lunch, taxi]\<rparr>)) = [taxi] \<and>
   id' memo \<notin> id' ` set (expenses (initial_world\<lparr>expenses := [lunch, taxi]\<rparr>)) \<and>
   expenses (removeExpense browser (id' memo) (initial_world\<lparr>expenses := [lunch, taxi]\<rparr>)) = [lunch, taxi]"
  using removeExpense_idempotent
      [where p = browser and i = "id' lunch" and w = "initial_world\<lparr>expenses := [lunch, taxi]\<rparr>"]
    removeExpense_idempotent
      [where p = browser and i = "id' memo" and w = "initial_world\<lparr>expenses := [lunch, taxi]\<rparr>"]
  by (simp add: expenses_removeExpense initial_world_def lunch_def taxi_def memo_def)

subsection \<open>Persistence\<close>

text \<open>
  What the script adds to the browser's JSON functions and storage. After a write that
  the storage accepts, loading reads the saved text back under the same key and returns
  what \<^verbatim>\<open>JSON.parse\<close> makes of it; so the entries come back exactly when
  \<^verbatim>\<open>JSON.parse\<close> inverts \<^verbatim>\<open>JSON.stringify\<close> on them, which is the browser's
  doing. After a write that the storage rejects, \<^verbatim>\<open>saveToStorage\<close> logs the error,
  the slot keeps what it held, and loading returns the old contents.
\<close>

lemma load_after_save:
  assumes "setItem_throws p (localStorage w) ''expenses'' (JSON_stringify p (expenses w)) = None"
    and "getItem_throws p (localStorage (saveToStorage p w)) ''expenses'' = None"
    and "JSON_stringify p (expenses w) \<noteq> []"
  shows "fst (loadFromStorage p (saveToStorage p w)) =
           (case JSON_parse p (JSON_stringify p (expenses w)) of
              Inl err \<Rightarrow> Expense_array []
            | Inr v \<Rightarrow> v)"
proof -
  let ?w' = "saveToStorage p w"
  let ?text = "JSON_stringify p (expenses w)"
  from assms(1) have "localStorage ?w' ''expenses'' = Some ?text"
    by (simp add: localStorage_saveToStorage)
  with assms(2) have "getItem p (localStorage ?w') ''expenses'' = Inr (Some ?text)"
    by (simp add: getItem_def)
  with assms(3) show ?thesis
    by (simp add: loadFromStorage_def split: sum.splits)
qed

lemma save_rejected:
  assumes "setItem_throws p (localStorage w) ''expenses'' (JSON_stringify p (expenses w)) = Some err"
  shows "localStorage (saveToStorage p w) = localStorage w"
    and "console (saveToStorage p w) = console w @ [(''Error saving to localStorage:'', err)]"
  using assms by (simp_all add: saveToStorage_def setItem_def)

lemma load_after_rejected_save:
  "JSON_parse browser_storage_full (JSON_stringify browser_storage_full [lunch])
     = Inr (Expense_array [lunch]) \<and>
   expenses (saveToStorage browser_storage_full (initial_world\<lparr>expenses := [lunch]\<rparr>)) = [lunch] \<and>
   fst (loadFromStorage browser_storage_full
          (saveToStorage browser_storage_full (initial_world\<lparr>expenses := [lunch]\<rparr>)))
     = Expense_array []"
  by (simp add: browser_storage_full_def browser_def json_table_def initial_world_def lunch_def
      saveToStorage_def setItem_def loadFromStorage_def getItem_def)

subsection \<open>The filter\<close>

text \<open>
  C7 (as amended). \<^verbatim>\<open>setFilter\<close> never fails: for every value, recognized or not, it
  replaces the active filter by that value and changes nothing else; in particular it
  writes nothing to the storage.
\<close>

theorem setFilter_replaces_filter_only:
  "currentFilter (setFilter v w) = v \<and> expenses (setFilter v w) = expenses w \<and>
   localStorage (setFilter v w) = localStorage w \<and> console (setFilter v w) = console w"
  by (simp add: setFilter_def)

text \<open>A value that is neither \<^verbatim>\<open>All\<close> nor a recognized category becomes the active filter.\<close>

theorem setFilter_accepts_unknown:
  "''Yearly'' \<notin> set (''All'' # recognized_categories) \<and>
   currentFilter (setFilter ''Yearly'' initial_world) = ''Yearly'' \<and>
   currentFilter (setFilter ''Yearly'' initial_world) \<noteq> currentFilter initial_world"
  by (simp add: setFilter_def initial_world_def recognized_categories_def)

subsection \<open>Loading\<close>

text \<open>
  Where loading does fall back to the empty array: when the slot was never written
  (without an error when the read itself succeeds), and when the slot holds a text that
  \<^verbatim>\<open>JSON.parse\<close> rejects; \<^verbatim>\<open>init\<close> then sets the entries to the empty array and
  leaves the filter and the storage as they were.
\<close>

lemma load_empty_or_rejected:
  "(localStorage w ''expenses'' = None \<longrightarrow>
      fst (loadFromStorage p w) = Expense_array [] \<and>
      init p w = Ledger ((snd (loadFromStorage p w))\<lparr>expenses := []\<rparr>)) \<and>
   (localStorage w ''expenses'' = None \<and> getItem_throws p (localStorage w) ''expenses'' = None \<longrightarrow>
      loadFromStorage p w = (Expense_array [], w)) \<and>
   (localStorage w ''expenses'' = Some stored \<and> JSON_parse p stored = Inl err \<longrightarrow>
      fst (loadFromStorage p w) = Expense_array [] \<and>
      init p w = Ledger ((snd (loadFromStorage p w))\<lparr>expenses := []\<rparr>) \<and>
      currentFilter (snd (loadFromStorage p w)) = currentFilter w \<and>
      localStorage (snd (loadFromStorage p w)) = localStorage w)"
  by (simp add: init_def loadFromStorage_def getItem_def split: option.splits)

lemma load_rejected_text:
  "JSON_parse browser ''[{id:'' = Inl SyntaxError \<and>
   init browser (initial_world\<lparr>expenses := [taxi], localStorage := [''expenses'' \<mapsto> ''[{id:'']\<rparr>)
     = Ledger (initial_world\<lparr>expenses := [], localStorage := [''expenses'' \<mapsto> ''[{id:''],
                 console := [(''Error loading from localStorage:'', SyntaxError)]\<rparr>)"
  by (simp add: init_def loadFromStorage_def getItem_def initial_world_def browser_def
      json_table_def)

text \<open>
  C8. A slot holding a text that is not a serialized array of entries is meant to count as
  empty. The code does so only when \<^verbatim>\<open>JSON.parse\<close> throws. The stored text
  \<^verbatim>\<open>null\<close> is JSON: \<^verbatim>\<open>JSON.parse\<close> returns \<^verbatim>\<open>null\<close>, the \<^verbatim>\<open>catch\<close> is
  not entered, \<^verbatim>\<open>loadFromStorage\<close> returns \<^verbatim>\<open>null\<close> where its comment promises
  an array, nothing is logged, and \<^verbatim>\<open>init\<close> leaves \<^verbatim>\<open>state.expenses\<close> holding
  \<^verbatim>\<open>null\<close> instead of the empty array.
\<close>

theorem init_stored_null:
  "localStorage (initial_world\<lparr>localStorage := [''expenses'' \<mapsto> ''null'']\<rparr>) ''expenses''
     = Some ''null'' \<and>
   JSON_parse browser ''null'' = Inr Null \<and>
   loadFromStorage browser (initial_world\<lparr>localStorage := [''expenses'' \<mapsto> ''null'']\<rparr>)
     = (Null, initial_world\<lparr>localStorage := [''expenses'' \<mapsto> ''null'']\<rparr>) \<and>
   init browser (initial_world\<lparr>localStorage := [''expenses'' \<mapsto> ''null'']\<rparr>)
     = No_ledger Null (initial_world\<lparr>localStorage := [''expenses'' \<mapsto> ''null'']\<rparr>) \<and>
   init browser (initial_world\<lparr>localStorage := [''expenses'' \<mapsto> ''null'']\<rparr>)
     \<noteq> Ledger (initial_world\<lparr>localStorage := [''expenses'' \<mapsto> ''null''], expenses := []\<rparr>)"
  by (simp add: init_def loadFromStorage_def getItem_def initial_world_def browser_def
      json_table_def)

subsection \<open>Saving\<close>

text \<open>
  C9. When the write of \<^verbatim>\<open>addExpense\<close> is rejected by the storage, the expense is in
  the entries all the same, the filtered view and the total include it, the storage keeps
  its previous contents, and the error ends in the console: \<^verbatim>\<open>addExpense\<close> returns
  normally.
\<close>

theorem addExpense_survives_failed_write:
  assumes "setItem_throws p (localStorage w) ''expenses'' (JSON_stringify p (expenses w @ [e])) = Some err"
  shows "expenses (addExpense p e w) = expenses w @ [e] \<and>
         getFilteredExpenses (addExpense p e w) =
           getFilteredExpenses w @
             (if currentFilter w = ''All'' \<or> category e = currentFilter w then [e] else []) \<and>
         getTotal p (addExpense p e w) =
           (if currentFilter w = ''All'' \<or> category e = currentFilter w
            then number_add p (getTotal p w) (amount e) else getTotal p w) \<and>
         localStorage (addExpense p e w) = localStorage w \<and>
         console (addExpense p e w) = console w @ [(''Error saving to localStorage:'', err)]"
  using assms
  by (simp add: addExpense_def saveToStorage_def setItem_def getTotal_def getFilteredExpenses_def)

text \<open>The first expense added while the storage is full.\<close>

theorem addExpense_survives_failed_write_witness:
  "setItem_throws browser_storage_full (localStorage initial_world) ''expenses''
      (JSON_stringify browser_storage_full (expenses initial_world @ [lunch])) = Some QuotaExceededError \<and>
   expenses (addExpense browser_storage_full lunch initial_world) = [lunch] \<and>
   getTotal browser_storage_full (addExpense browser_storage_full lunch initial_world) = 50 \<and>
   localStorage (addExpense browser_storage_full lunch initial_world) ''expenses'' = None \<and>
   console (addExpense browser_storage_full lunch initial_world) =
     [(''Error saving to localStorage:'', QuotaExceededError)]"
  using addExpense_survives_failed_write
      [where p = browser_storage_full and w = initial_world and e = lunch and err = QuotaExceededError]
  by (simp add: browser_storage_full_def browser_def initial_world_def getTotal_def
      getFilteredExpenses_def lunch_def)

subsection \<open>Stored data is trusted\<close>

text \<open>
  C10. \<^verbatim>\<open>init\<close> checks nothing in what it loads: when the stored text parses as an
  array, the entries become exactly that array, and nothing else changes. An amount that
  is not positive, an unrecognized category and a repeated id enter the ledger this way.
\<close>

theorem init_keeps_parsed_array:
  assumes "getItem_throws p (localStorage w) ''expenses'' = None"
    and "localStorage w ''expenses'' = Some stored"
    and "stored \<noteq> []"
    and "JSON_parse p stored = Inr (Expense_array parsed)"
  shows "init p w = Ledger (w\<lparr>expenses := parsed\<rparr>)"
  using assms by (simp add: init_def loadFromStorage_def getItem_def)

text \<open>A stored array whose second element has all three defects.\<close>

theorem init_keeps_parsed_array_witness:
  "JSON_parse browser (JSON_stringify browser [lunch, refund]) = Inr (Expense_array [lunch, refund]) \<and>
   init browser
     (initial_world\<lparr>localStorage := [''expenses'' \<mapsto> JSON_stringify browser [lunch, refund]]\<rparr>)
     = Ledger (initial_world\<lparr>localStorage := [''expenses'' \<mapsto> JSON_stringify browser [lunch, refund]],
                 expenses := [lunch, refund]\<rparr>) \<and>
   amount refund \<le> 0 \<and> category refund \<notin> set recognized_categories \<and> id' refund = id' lunch"
  using init_keeps_parsed_array
    [where p = browser and stored = "JSON_stringify browser [lunch, refund]" and parsed = "[lunch, refund]"
       and w = "initial_world\<lparr>localStorage := [''expenses'' \<mapsto> JSON_stringify browser [lunch, refund]]\<rparr>"]
  by (simp add: initial_world_def browser_def json_table_def lunch_def refund_def
      recognized_categories_def)

end
